theory Spec2Isabelle
  imports Complex_Main
begin

section \<open>Manifold Drift: the movement model of \<open>src/App.jsx\<close>\<close>

text \<open>
  The JavaScript numbers of the program are modelled as real numbers: rounding, NaN,
  infinities and signed zeros are outside this development. Arrays of two and three
  numbers (\<open>[x, y]\<close>, \<open>[x, y, z]\<close>) and the vector objects of the three.js library are
  tuples.
\<close>

type_synonym vec2 = "real \<times> real"
type_synonym vec3 = "real \<times> real \<times> real"

subsection \<open>Library operations used by the program (three.js vectors, \<open>Math.atan2\<close>)\<close>

definition lengthSq2 :: "vec2 \<Rightarrow> real" where
  "lengthSq2 w = (case w of (x, y) \<Rightarrow> x * x + y * y)"

definition length2 :: "vec2 \<Rightarrow> real" where
  "length2 w = sqrt (lengthSq2 w)"

definition multiplyScalar2 :: "vec2 \<Rightarrow> real \<Rightarrow> vec2" where
  "multiplyScalar2 w k = (case w of (x, y) \<Rightarrow> (x * k, y * k))"

text \<open>\<open>normalize()\<close> is \<open>divideScalar(length() || 1)\<close>: the zero vector stays zero.\<close>

definition normalize2 :: "vec2 \<Rightarrow> vec2" where
  "normalize2 w = multiplyScalar2 w (1 / (if length2 w = 0 then 1 else length2 w))"

text \<open>The components \<open>.x\<close>, \<open>.y\<close>, \<open>.z\<close> of a three-dimensional vector (or \<open>[0]\<close>, \<open>[1]\<close>, \<open>[2]\<close>).\<close>

definition vx :: "vec3 \<Rightarrow> real" where
  "vx a = fst a"

definition vy :: "vec3 \<Rightarrow> real" where
  "vy a = fst (snd a)"

definition vz :: "vec3 \<Rightarrow> real" where
  "vz a = snd (snd a)"

definition lengthSq3 :: "vec3 \<Rightarrow> real" where
  "lengthSq3 a = (case a of (x, y, z) \<Rightarrow> x * x + y * y + z * z)"

definition length3 :: "vec3 \<Rightarrow> real" where
  "length3 a = sqrt (lengthSq3 a)"

definition multiplyScalar3 :: "vec3 \<Rightarrow> real \<Rightarrow> vec3" where
  "multiplyScalar3 a k = (case a of (x, y, z) \<Rightarrow> (x * k, y * k, z * k))"

definition normalize3 :: "vec3 \<Rightarrow> vec3" where
  "normalize3 a = multiplyScalar3 a (1 / (if length3 a = 0 then 1 else length3 a))"

definition dot3 :: "vec3 \<Rightarrow> vec3 \<Rightarrow> real" where
  "dot3 a b = (case (a, b) of ((ax, ay, az), (bx, by, bz)) \<Rightarrow> ax * bx + ay * by + az * bz)"

definition add3 :: "vec3 \<Rightarrow> vec3 \<Rightarrow> vec3" where
  "add3 a b = (case (a, b) of ((ax, ay, az), (bx, by, bz)) \<Rightarrow> (ax + bx, ay + by, az + bz))"

definition sub3 :: "vec3 \<Rightarrow> vec3 \<Rightarrow> vec3" where
  "sub3 a b = (case (a, b) of ((ax, ay, az), (bx, by, bz)) \<Rightarrow> (ax - bx, ay - by, az - bz))"

definition negate3 :: "vec3 \<Rightarrow> vec3" where
  "negate3 a = (case a of (x, y, z) \<Rightarrow> (- x, - y, - z))"

definition crossVectors :: "vec3 \<Rightarrow> vec3 \<Rightarrow> vec3" where
  "crossVectors a b =
     (case (a, b) of ((ax, ay, az), (bx, by, bz)) \<Rightarrow>
        (ay * bz - az * by, az * bx - ax * bz, ax * by - ay * bx))"

definition addScaledVector :: "vec3 \<Rightarrow> vec3 \<Rightarrow> real \<Rightarrow> vec3" where
  "addScaledVector a b k = add3 a (multiplyScalar3 b k)"

text \<open>
  \<open>new Matrix3().set(n11, n12, n13, n21, ...)\<close> takes its entries row by row, and
  \<open>applyMatrix3\<close> multiplies the matrix by the column vector.
\<close>

type_synonym mat3 = "vec3 \<times> vec3 \<times> vec3"

definition applyMatrix3 :: "vec3 \<Rightarrow> mat3 \<Rightarrow> vec3" where
  "applyMatrix3 a m = (case m of (r1, r2, r3) \<Rightarrow> (dot3 r1 a, dot3 r2 a, dot3 r3 a))"

text \<open>
  \<open>Math.atan2(y, x)\<close>, the angle of the point \<open>(x, y)\<close> in \<open>(-\<pi>, \<pi>]\<close>; the results that
  ECMAScript distinguishes by the sign of a zero are taken at the positive zero.
\<close>

definition atan2 :: "real \<Rightarrow> real \<Rightarrow> real" where
  "atan2 y x =
     (if 0 < x then arctan (y / x)
      else if x < 0 then (if 0 \<le> y then arctan (y / x) + pi else arctan (y / x) - pi)
      else if 0 < y then pi / 2
      else if y < 0 then - (pi / 2)
      else 0)"

subsection \<open>Chart math (lines 9 to 32)\<close>

definition stereoToSphere :: "vec2 \<Rightarrow> vec3" where
  "stereoToSphere c =
     (case c of (x, y) \<Rightarrow>
        let r2 = x * x + y * y;
            denom = r2 + 1;
            s = 2 / denom
        in (s * x, s * y, (r2 - 1) / denom))"

definition sphereLambda :: "vec2 \<Rightarrow> real" where
  "sphereLambda c = (case c of (x, y) \<Rightarrow> let r2 = x * x + y * y in 2 / (1 + r2))"

definition saddleEmbed :: "vec2 \<Rightarrow> real \<Rightarrow> vec3" where
  "saddleEmbed c k = (case c of (x, y) \<Rightarrow> (x, y, (x * x - y * y) * k))"

definition saddleLambda :: "vec2 \<Rightarrow> real \<Rightarrow> real" where
  "saddleLambda c k =
     (case c of (x, y) \<Rightarrow> let s = sqrt (1 + 4 * k * k * (x * x + y * y)) in 1 / s)"

text \<open>The default value of the parameter \<open>k\<close> of both saddle functions.\<close>

definition k_default :: real where
  "k_default = 0.15"

subsection \<open>The player (lines 119 to 246)\<close>

text \<open>
  The mutable cells of \<open>Player\<close>: \<open>ref.current\<close> is \<open>None\<close> while the scene object does
  not exist and otherwise holds the object's position; \<open>vel\<close>, \<open>chart\<close> and \<open>onGround\<close>
  are the three other refs.
\<close>

record player =
  obj :: "vec3 option"
  vel :: vec3
  chart :: vec2
  onGround :: bool

definition speed :: real where
  "speed = 2.8"

definition jumpSpeed :: real where
  "jumpSpeed = 4"

definition gravity :: real where
  "gravity = - 9.8"

text \<open>
  \<open>keys.current\<close> maps key codes to booleans; a code that was never pressed has no
  entry, which is falsy.
\<close>

type_synonym keymap = "string \<rightharpoonup> bool"

definition held :: "keymap \<Rightarrow> string \<Rightarrow> bool" where
  "held keys code = (keys code = Some True)"

definition forward_input :: "keymap \<Rightarrow> real" where
  "forward_input keys =
     (if held keys ''KeyW'' then 1 else 0) - (if held keys ''KeyS'' then 1 else 0)"

definition strafe_input :: "keymap \<Rightarrow> real" where
  "strafe_input keys =
     (if held keys ''KeyD'' then 1 else 0) - (if held keys ''KeyA'' then 1 else 0)"

text \<open>The mount effect of lines 141 to 145 (dependency list \<open>[]\<close>: it runs once).\<close>

definition Player_mount :: player where
  "Player_mount = \<lparr>obj = Some (0, 1.2, 4), vel = (0, 0, 0), chart = (0, 0), onGround = True\<rparr>"

text \<open>Flat mode, lines 158 to 167: the camera direction on the ground and the move.\<close>

definition flat_dir :: "vec3 \<Rightarrow> vec3" where
  "flat_dir cam = (case cam of (cx, cy, cz) \<Rightarrow> normalize3 (cx, 0, cz))"

definition flat_move :: "vec3 \<Rightarrow> real \<Rightarrow> real \<Rightarrow> vec3" where
  "flat_move dir forward strafe =
     (let right = negate3 (crossVectors dir (0, 1, 0));
          move = addScaledVector (addScaledVector (0, 0, 0) dir forward) right strafe
      in if lengthSq3 move > 0 then multiplyScalar3 (normalize3 move) speed else move)"

text \<open>
  Lines 169 to 180 on the triple of position, velocity and grounded flag: velocity
  update, gravity, jump, and integration of the position.
\<close>

definition flat_integrate :: "vec3 \<Rightarrow> bool \<Rightarrow> real \<Rightarrow> vec3 \<times> vec3 \<times> bool \<Rightarrow> vec3 \<times> vec3 \<times> bool" where
  "flat_integrate move jump dt st =
     (case (move, st) of ((mx, my, mz), (px, py, pz), (v0, v1, v2), g) \<Rightarrow>
        let w1 = v1 + gravity * dt;
            w1' = (if jump \<and> g then jumpSpeed else w1);
            g' = (if jump \<and> g then False else g)
        in ((px + mx * dt, py + w1' * dt, pz + mz * dt), (mx, w1', mz), g'))"

text \<open>Lines 182 to 186: the ground plane.\<close>

definition ground_clamp :: "vec3 \<times> vec3 \<times> bool \<Rightarrow> vec3 \<times> vec3 \<times> bool" where
  "ground_clamp st =
     (case st of ((px, py, pz), (v0, v1, v2), g) \<Rightarrow>
        if py < 1 then ((px, 1, pz), (v0, 0, v2), True) else st)"

text \<open>Curved mode, lines 204 to 206 and 232 to 234: metric factor and embedding.\<close>

definition metric_factor :: "string \<Rightarrow> vec2 \<Rightarrow> real" where
  "metric_factor manifold c =
     (let lam = 1;
          lam = (if manifold = ''sphere'' then sphereLambda c else lam);
          lam = (if manifold = ''saddle'' then saddleLambda c k_default else lam)
      in lam)"

definition embed_point :: "string \<Rightarrow> vec2 \<Rightarrow> vec3" where
  "embed_point manifold c =
     (let p = (0, 0, 0);
          p = (if manifold = ''sphere'' then stereoToSphere c else p);
          p = (if manifold = ''saddle'' then saddleEmbed c k_default else p)
      in p)"

text \<open>Lines 202 and 208 to 227: the chart displacement \<open>du\<close> and the yaw.\<close>

definition chart_du :: "vec3 \<Rightarrow> real \<Rightarrow> real \<Rightarrow> real \<Rightarrow> real \<Rightarrow> vec2 \<times> real" where
  "chart_du cam forward strafe lam dt =
     (let want = (strafe, forward) in
      if lengthSq2 want > 0 then
        (let want = normalize2 want;
             yaw = atan2 (vx cam) (vz cam);
             localToWorld = ((cos yaw, - sin yaw, 0), (sin yaw, cos yaw, 0), (0, 0, 1));
             v = applyMatrix3 (fst want, snd want, 1) localToWorld;
             du = (vx v, vy v)
         in (multiplyScalar2 (normalize2 du) ((speed / max lam 0.0001) * dt), yaw))
      else ((0, 0), atan2 (vx cam) (vz cam)))"

text \<open>
  One frame of \<open>Player\<close> (the callback of \<open>useFrame\<close>, lines 147 to 246): the camera's
  world direction, the key map and the elapsed time come from outside. The result is the
  new state of the cells and the pose handed to \<open>onPose\<close>, if the frame got that far. The
  status text for the display is left out.
\<close>

type_synonym pose = "vec3 \<times> real"

definition useFrame :: "vec3 \<Rightarrow> keymap \<Rightarrow> real \<Rightarrow> string \<Rightarrow> string \<Rightarrow> player \<Rightarrow> player \<times> pose option" where
  "useFrame cam keys dt0 mode manifold s =
     (let dt = min dt0 (1 / 30) in
      if mode = ''euclid'' then
        (case obj s of
           None \<Rightarrow> (s, None)
         | Some pos \<Rightarrow>
             let dir = flat_dir cam;
                 move = flat_move dir (forward_input keys) (strafe_input keys);
                 st = ground_clamp
                        (flat_integrate move (held keys ''Space'') dt (pos, vel s, onGround s));
                 yaw = atan2 (vx dir) (vz dir)
             in (s\<lparr>obj := Some (fst st), vel := fst (snd st), onGround := snd (snd st)\<rparr>,
                 Some (fst st, yaw)))
      else
        (case obj s of
           None \<Rightarrow> (s, None)
         | Some pos \<Rightarrow>
             let lam = metric_factor manifold (chart s);
                 r = chart_du cam (forward_input keys) (strafe_input keys) lam dt;
                 du = fst r;
                 yaw = snd r;
                 c = (fst (chart s) + fst du, snd (chart s) + snd du);
                 p = embed_point manifold c
             in (s\<lparr>chart := c, obj := Some p\<rparr>, Some (p, yaw))))"

text \<open>
  The host calls the callback once per frame; a run of frames under one mode and one
  manifold, each frame with its own camera direction, key map and elapsed time.
\<close>

fun run_frames :: "(vec3 \<times> keymap \<times> real) list \<Rightarrow> string \<Rightarrow> string \<Rightarrow> player \<Rightarrow> player" where
  "run_frames [] mode manifold s = s"
| "run_frames ((cam, keys, dt) # fs) mode manifold s =
     run_frames fs mode manifold (fst (useFrame cam keys dt mode manifold s))"

subsection \<open>Geodesic tracers (lines 84 to 107)\<close>

definition offsets :: "real list" where
  "offsets = [- 0.6, 0, 0.6]"

definition arc :: real where
  "arc = pi * 1.3"

definition N :: nat where
  "N = 220"

text \<open>
  Lines 92 to 95: the tangent direction. The pair \<open>rnd\<close> holds the results of
  \<open>randomDirection()\<close> and \<open>Math.random()\<close>, read only when the projected direction
  is degenerate.
\<close>

definition tangent :: "vec3 \<Rightarrow> real \<Rightarrow> vec3 \<times> real \<Rightarrow> vec3" where
  "tangent p0 yaw rnd =
     (let dirFlat = (sin yaw, 0, cos yaw);
          t = sub3 dirFlat (multiplyScalar3 p0 (dot3 dirFlat p0));
          t = (if lengthSq3 t < 0.000001
               then normalize3 (sub3 (fst rnd) (multiplyScalar3 p0 (snd rnd)))
               else t)
      in normalize3 t)"

text \<open>Lines 98 to 101: the point number \<open>i\<close> of the arc.\<close>

definition arc_point :: "vec3 \<Rightarrow> vec3 \<Rightarrow> nat \<Rightarrow> vec3" where
  "arc_point p0 v i =
     (let s = (real i / real N - 0.5) * arc;
          cs = cos s;
          ss = sin s;
          g = add3 (multiplyScalar3 p0 cs) (multiplyScalar3 v ss)
      in normalize3 g)"

text \<open>The loop of lines 97 to 103, from index \<open>i\<close> with the points pushed so far.\<close>

function arc_loop :: "vec3 \<Rightarrow> vec3 \<Rightarrow> nat \<Rightarrow> vec3 list \<Rightarrow> vec3 list" where
  "arc_loop p0 v i pts = (if i \<le> N then arc_loop p0 v (Suc i) (pts @ [arc_point p0 v i]) else pts)"
  by pat_completeness auto
termination
  by (relation "measure (\<lambda>(p0, v, i, pts). Suc N - i)") auto

declare arc_loop.simps [simp del]

definition makeGreatCircle :: "vec3 \<Rightarrow> real \<Rightarrow> vec3 \<times> real \<Rightarrow> vec3 list" where
  "makeGreatCircle p0 yaw rnd = arc_loop p0 (tangent p0 yaw rnd) 0 []"

text \<open>
  Line 107, for a pose whose \<open>pos\<close> and \<open>yaw\<close> are present: one arc per offset, each
  with its own random draws \<open>rnd k\<close>. \<open>None\<close> is the early \<open>return null\<close> of line 85.
\<close>

definition GeodesicTracers :: "bool \<Rightarrow> string \<Rightarrow> pose \<Rightarrow> (nat \<Rightarrow> vec3 \<times> real) \<Rightarrow> vec3 list list option" where
  "GeodesicTracers enabled manifold ps rnd =
     (if \<not> enabled \<or> manifold \<noteq> ''sphere'' then None
      else Some (map (\<lambda>k. makeGreatCircle (normalize3 (fst ps)) (snd ps + offsets ! k) (rnd k))
                   [0 ..< length offsets]))"

subsection \<open>The application state (lines 363 to 373 and the buttons of lines 384 to 389)\<close>

text \<open>
  The state cells of \<open>App\<close> that the movement model reads or writes, and the cells of the
  one \<open>Player\<close> it renders. \<open>Player\<close> keeps its place in the tree for every mode and
  manifold, so it is mounted once and its cells live as long as the application.
\<close>

record app =
  mode_state :: string
  manifold_state :: string
  transitionTS :: real
  pose_state :: pose
  player_state :: player

definition App_mount :: "real \<Rightarrow> app" where
  "App_mount now =
     \<lparr>mode_state = ''euclid'', manifold_state = ''sphere'', transitionTS = now,
      pose_state = ((0, 0, 0), 0), player_state = Player_mount\<rparr>"

text \<open>
  A state setter followed by the re-render: the effect of line 373 depends on
  \<open>[mode, manifold]\<close> and stamps the time \<open>now\<close> when one of them changed; the effect of
  lines 141 to 145 depends on \<open>[]\<close> and does not run again.
\<close>

definition setMode :: "string \<Rightarrow> real \<Rightarrow> app \<Rightarrow> app" where
  "setMode m now a = (if m = mode_state a then a else a\<lparr>mode_state := m, transitionTS := now\<rparr>)"

definition setManifold :: "string \<Rightarrow> real \<Rightarrow> app \<Rightarrow> app" where
  "setManifold m now a =
     (if m = manifold_state a then a else a\<lparr>manifold_state := m, transitionTS := now\<rparr>)"

text \<open>One frame of the application (line 412): \<open>Player\<close> runs with \<open>onPose = setPose\<close>.\<close>

definition App_frame :: "vec3 \<Rightarrow> keymap \<Rightarrow> real \<Rightarrow> app \<Rightarrow> app" where
  "App_frame cam keys dt a =
     (case useFrame cam keys dt (if mode_state a = ''euclid'' then ''euclid'' else ''riemann'')
             (manifold_state a) (player_state a) of
        (s, None) \<Rightarrow> a\<lparr>player_state := s\<rparr>
      | (s, Some ps) \<Rightarrow> a\<lparr>player_state := s, pose_state := ps\<rparr>)"

section \<open>Chart math\<close>

lemma stereo_denominator_pos: "0 < (x::real) * x + y * y + 1"
  by (simp add: add_nonneg_pos)

text \<open>
  Claim C2. For every real pair \<open>(u, v)\<close>, \<open>stereoToSphere\<close> returns
  \<open>(s u, s v, (r\<^sup>2 - 1) / (r\<^sup>2 + 1))\<close> with \<open>r\<^sup>2 = u\<^sup>2 + v\<^sup>2\<close> and \<open>s = 2 / (r\<^sup>2 + 1)\<close>, and the
  squared norm of that point is exactly 1 (so it is within \<open>1e-9\<close> of 1).
\<close>

theorem stereoToSphere_on_unit_sphere:
  "stereoToSphere (u, v) =
     (2 / (u\<^sup>2 + v\<^sup>2 + 1) * u, 2 / (u\<^sup>2 + v\<^sup>2 + 1) * v, (u\<^sup>2 + v\<^sup>2 - 1) / (u\<^sup>2 + v\<^sup>2 + 1))
   \<and> lengthSq3 (stereoToSphere (u, v)) = 1
   \<and> \<bar>lengthSq3 (stereoToSphere (u, v)) - 1\<bar> \<le> 0.000000001"
proof -
  have d: "u * u + v * v + 1 \<noteq> 0"
    using stereo_denominator_pos [of u v] by simp
  have shape: "stereoToSphere (u, v) =
     (2 / (u\<^sup>2 + v\<^sup>2 + 1) * u, 2 / (u\<^sup>2 + v\<^sup>2 + 1) * v, (u\<^sup>2 + v\<^sup>2 - 1) / (u\<^sup>2 + v\<^sup>2 + 1))"
    by (simp add: stereoToSphere_def Let_def power2_eq_square)
  have "lengthSq3 (stereoToSphere (u, v)) =
      ((2 * u)\<^sup>2 + (2 * v)\<^sup>2 + (u * u + v * v - 1)\<^sup>2) / (u * u + v * v + 1)\<^sup>2"
    by (simp add: stereoToSphere_def Let_def lengthSq3_def power2_eq_square add_divide_distrib)
  also have "(2 * u)\<^sup>2 + (2 * v)\<^sup>2 + (u * u + v * v - 1)\<^sup>2 = (u * u + v * v + 1)\<^sup>2"
    by (simp add: power2_eq_square algebra_simps)
  also have "(u * u + v * v + 1)\<^sup>2 / (u * u + v * v + 1)\<^sup>2 = 1"
    using d by simp
  finally have unit: "lengthSq3 (stereoToSphere (u, v)) = 1" .
  show ?thesis
    using shape unit by simp
qed

text \<open>
  Claim C6. For every real pair \<open>(u, v)\<close>, \<open>sphereLambda (u, v) = 2 / (1 + u\<^sup>2 + v\<^sup>2)\<close> lies in
  the interval \<open>(0, 2]\<close>, and it is 2 at the origin.
\<close>

theorem sphereLambda_range:
  "sphereLambda (u, v) = 2 / (1 + u\<^sup>2 + v\<^sup>2)
   \<and> 0 < sphereLambda (u, v) \<and> sphereLambda (u, v) \<le> 2
   \<and> sphereLambda (0, 0) = 2"
proof -
  have nn: "0 \<le> u * u + v * v"
    by simp
  have pos: "0 < 1 + (u * u + v * v)"
    using nn by linarith
  have "2 / (1 + (u * u + v * v)) \<le> 2 / 1"
    using nn pos by (intro divide_left_mono) simp_all
  moreover have "0 < 2 / (1 + (u * u + v * v))"
    using pos by simp
  ultimately show ?thesis
    by (simp add: sphereLambda_def Let_def power2_eq_square add.assoc)
qed

section \<open>Vectors\<close>

lemma lengthSq2_nonneg: "0 \<le> lengthSq2 w"
  by (cases w) (simp add: lengthSq2_def)

lemma length2_multiplyScalar2: "length2 (multiplyScalar2 w k) = \<bar>k\<bar> * length2 w"
proof (cases w)
  case (Pair x y)
  have "x * k * (x * k) + y * k * (y * k) = k\<^sup>2 * (x * x + y * y)"
    by (simp add: power2_eq_square algebra_simps)
  then show ?thesis
    using Pair by (simp add: length2_def lengthSq2_def multiplyScalar2_def real_sqrt_mult)
qed

lemma length2_normalize2: "w \<noteq> (0, 0) \<Longrightarrow> length2 (normalize2 w) = 1"
proof -
  assume nz: "w \<noteq> (0, 0)"
  obtain x y where w: "w = (x, y)" by (cases w)
  have "x \<noteq> 0 \<or> y \<noteq> 0" using nz w by simp
  then have "0 < x * x + y * y"
    by (metis add_pos_nonneg add_nonneg_pos mult_eq_0_iff not_real_square_gt_zero zero_le_square)
  then have pos: "0 < length2 w"
    using w by (simp add: length2_def lengthSq2_def)
  show ?thesis
    using pos by (simp add: normalize2_def length2_multiplyScalar2)
qed

lemma lengthSq2_rotate:
  "lengthSq2 (cos a * x - sin a * y, sin a * x + cos a * y) = lengthSq2 (x, y)"
proof -
  have "(cos a * x - sin a * y) * (cos a * x - sin a * y)
        + (sin a * x + cos a * y) * (sin a * x + cos a * y)
        = (x * x + y * y) * (cos a * cos a + sin a * sin a)"
    by (simp only: algebra_simps)
  also have "\<dots> = x * x + y * y"
    by (simp only: sin_cos_squared_add3 mult_1_right)
  finally show ?thesis
    by (simp add: lengthSq2_def)
qed

section \<open>The curved-mode step\<close>

lemma chart_du_length:
  assumes nz: "(strafe, forward) \<noteq> (0, 0)" and dt: "0 \<le> dt"
  shows "length2 (fst (chart_du cam forward strafe lam dt)) = speed / max lam 0.0001 * dt"
proof -
  define w where "w = normalize2 (strafe, forward)"
  define a where "a = atan2 (vx cam) (vz cam)"
  define r where "r = (cos a * fst w - sin a * snd w, sin a * fst w + cos a * snd w)"
  have pos: "lengthSq2 (strafe, forward) > 0"
    using nz lengthSq2_nonneg [of "(strafe, forward)"]
    by (auto simp: lengthSq2_def less_le add_nonneg_eq_0_iff)
  have w1: "length2 w = 1"
    unfolding w_def using nz by (rule length2_normalize2)
  have "lengthSq2 r = lengthSq2 (fst w, snd w)"
    unfolding r_def by (rule lengthSq2_rotate)
  then have r1: "length2 r = 1"
    using w1 by (simp add: length2_def)
  then have rnz: "r \<noteq> (0, 0)"
    by (auto simp: length2_def lengthSq2_def)
  have du: "fst (chart_du cam forward strafe lam dt)
              = multiplyScalar2 (normalize2 r) (speed / max lam 0.0001 * dt)"
    using pos by (simp add: chart_du_def Let_def applyMatrix3_def dot3_def vx_def vy_def vz_def w_def a_def r_def)
  define k where "k = speed / max lam 0.0001 * dt"
  have "0 \<le> k"
    unfolding k_def using dt by (simp add: speed_def)
  then have "length2 (multiplyScalar2 (normalize2 r) k) = k"
    using length2_normalize2 [OF rnz] by (simp add: length2_multiplyScalar2)
  then show ?thesis
    using du by (simp add: k_def)
qed


lemma useFrame_curved:
  assumes "mode \<noteq> ''euclid''" and "obj s = Some pos"
  shows "useFrame cam keys dt mode manifold s =
     (s\<lparr>chart := (fst (chart s)
                    + fst (fst (chart_du cam (forward_input keys) (strafe_input keys)
                                  (metric_factor manifold (chart s)) (min dt (1 / 30)))),
                  snd (chart s)
                    + snd (fst (chart_du cam (forward_input keys) (strafe_input keys)
                                  (metric_factor manifold (chart s)) (min dt (1 / 30))))),
         obj := Some (embed_point manifold
                  (fst (chart s)
                    + fst (fst (chart_du cam (forward_input keys) (strafe_input keys)
                                  (metric_factor manifold (chart s)) (min dt (1 / 30)))),
                   snd (chart s)
                    + snd (fst (chart_du cam (forward_input keys) (strafe_input keys)
                                  (metric_factor manifold (chart s)) (min dt (1 / 30))))))\<rparr>,
      Some (embed_point manifold
              (fst (chart s)
                 + fst (fst (chart_du cam (forward_input keys) (strafe_input keys)
                               (metric_factor manifold (chart s)) (min dt (1 / 30)))),
               snd (chart s)
                 + snd (fst (chart_du cam (forward_input keys) (strafe_input keys)
                               (metric_factor manifold (chart s)) (min dt (1 / 30))))),
            snd (chart_du cam (forward_input keys) (strafe_input keys)
                   (metric_factor manifold (chart s)) (min dt (1 / 30)))))"
  using assms by (simp add: useFrame_def Let_def)

lemma useFrame_flat:
  assumes "obj s = Some pos"
  shows "useFrame cam keys dt ''euclid'' manifold s =
     (s\<lparr>obj := Some (fst (ground_clamp (flat_integrate
                  (flat_move (flat_dir cam) (forward_input keys) (strafe_input keys))
                  (held keys ''Space'') (min dt (1 / 30)) (pos, vel s, onGround s)))),
         vel := fst (snd (ground_clamp (flat_integrate
                  (flat_move (flat_dir cam) (forward_input keys) (strafe_input keys))
                  (held keys ''Space'') (min dt (1 / 30)) (pos, vel s, onGround s)))),
         onGround := snd (snd (ground_clamp (flat_integrate
                  (flat_move (flat_dir cam) (forward_input keys) (strafe_input keys))
                  (held keys ''Space'') (min dt (1 / 30)) (pos, vel s, onGround s))))\<rparr>,
      Some (fst (ground_clamp (flat_integrate
                  (flat_move (flat_dir cam) (forward_input keys) (strafe_input keys))
                  (held keys ''Space'') (min dt (1 / 30)) (pos, vel s, onGround s))),
            atan2 (vx (flat_dir cam)) (vz (flat_dir cam))))"
  using assms by (simp add: useFrame_def Let_def)

lemma useFrame_unmounted: "obj s = None \<Longrightarrow> useFrame cam keys dt mode manifold s = (s, None)"
  by (simp add: useFrame_def Let_def)

lemma metric_floor_pos: "0 < max lam (0.0001::real)"
  by (simp add: less_max_iff_disj)

text \<open>
  Claim C1. In a curved-mode step with a non-zero desired-direction input and an elapsed
  time \<open>dt \<ge> 0\<close>, the displacement added to the chart position has Euclidean length
  \<open>(speed / max \<lambda> 1e-4) * \<Delta>t\<close>, where \<open>\<lambda>\<close> is the metric factor of the manifold at the
  chart position before the step and \<open>\<Delta>t = min dt (1/30)\<close>. The floored divisor is
  positive, so the length is bounded by \<open>speed * 10\<^sup>4 * \<Delta>t\<close> however small \<open>\<lambda>\<close> is.
\<close>

theorem curved_step_displacement_length:
  assumes "mode \<noteq> ''euclid''" and "obj s = Some pos"
    and "(strafe_input keys, forward_input keys) \<noteq> (0, 0)" and "0 \<le> dt"
  shows "length2 (fst (chart (fst (useFrame cam keys dt mode manifold s))) - fst (chart s),
                  snd (chart (fst (useFrame cam keys dt mode manifold s))) - snd (chart s))
           = speed / max (metric_factor manifold (chart s)) 0.0001 * min dt (1 / 30)
         \<and> 0 < max (metric_factor manifold (chart s)) 0.0001
         \<and> length2 (fst (chart (fst (useFrame cam keys dt mode manifold s))) - fst (chart s),
                  snd (chart (fst (useFrame cam keys dt mode manifold s))) - snd (chart s))
           \<le> speed * 10000 * min dt (1 / 30)"
proof -
  define lam where "lam = metric_factor manifold (chart s)"
  define h where "h = min dt (1 / 30)"
  define du where "du = fst (chart_du cam (forward_input keys) (strafe_input keys) lam h)"
  have h0: "0 \<le> h"
    using assms(4) by (simp add: h_def)
  have step: "(fst (chart (fst (useFrame cam keys dt mode manifold s))) - fst (chart s),
               snd (chart (fst (useFrame cam keys dt mode manifold s))) - snd (chart s)) = du"
    by (simp add: useFrame_curved [OF assms(1,2)] du_def lam_def h_def)
  have len: "length2 du = speed / max lam 0.0001 * h"
    unfolding du_def using assms(3) h0 by (rule chart_du_length)
  have fl: "0 < max lam 0.0001"
    by (rule metric_floor_pos)
  have "1 / max lam 0.0001 \<le> 1 / 0.0001"
    by (intro divide_left_mono) (simp_all add: less_max_iff_disj)
  then have "speed * h * (1 / max lam 0.0001) \<le> speed * h * (1 / 0.0001)"
    using h0 by (intro mult_left_mono) (simp_all add: speed_def)
  then have bound: "speed / max lam 0.0001 * h \<le> speed * 10000 * h"
    by (simp add: mult.commute mult.left_commute)
  show ?thesis
    using step len fl bound by (simp add: lam_def h_def)
qed

lemma metric_factor_cases:
  "metric_factor ''sphere'' c = sphereLambda c"
  "metric_factor ''saddle'' c = saddleLambda c k_default"
  "manifold \<noteq> ''sphere'' \<Longrightarrow> manifold \<noteq> ''saddle'' \<Longrightarrow> metric_factor manifold c = 1"
  by (simp_all add: metric_factor_def)

lemma embed_point_cases:
  "embed_point ''sphere'' c = stereoToSphere c"
  "embed_point ''saddle'' c = saddleEmbed c k_default"
  "manifold \<noteq> ''sphere'' \<Longrightarrow> manifold \<noteq> ''saddle'' \<Longrightarrow> embed_point manifold c = (0, 0, 0)"
  by (simp_all add: embed_point_def)

lemma inputs_W: "forward_input [''KeyW'' \<mapsto> True] = 1" "strafe_input [''KeyW'' \<mapsto> True] = 0"
  by (simp_all add: forward_input_def strafe_input_def held_def)

lemma inputs_none: "forward_input Map.empty = 0" "strafe_input Map.empty = 0"
  by (simp_all add: forward_input_def strafe_input_def held_def)

theorem curved_step_displacement_length_witness:
  "''riemann'' \<noteq> ''euclid'' \<and> obj Player_mount = Some (0, 1.2, 4)
   \<and> (strafe_input [''KeyW'' \<mapsto> True], forward_input [''KeyW'' \<mapsto> True]) \<noteq> (0, 0)
   \<and> (0::real) \<le> 1 / 60
   \<and> length2 (fst (chart (fst (useFrame (0, 0, 1) [''KeyW'' \<mapsto> True] (1 / 60) ''riemann'' ''sphere''
                                   Player_mount))) - fst (chart Player_mount),
               snd (chart (fst (useFrame (0, 0, 1) [''KeyW'' \<mapsto> True] (1 / 60) ''riemann'' ''sphere''
                                   Player_mount))) - snd (chart Player_mount))
      = 7 / 300"
proof -
  have a: "''riemann'' \<noteq> ''euclid''" by simp
  have b: "obj Player_mount = Some (0, 1.2, 4)" by (simp add: Player_mount_def)
  have c: "(strafe_input [''KeyW'' \<mapsto> True], forward_input [''KeyW'' \<mapsto> True]) \<noteq> (0, 0)"
    by (simp add: inputs_W)
  have d: "(0::real) \<le> 1 / 60" by simp
  have v: "speed / max (metric_factor ''sphere'' (chart Player_mount)) 0.0001 * min (1 / 60) (1 / 30)
           = 7 / 300"
    by (simp add: metric_factor_cases sphereLambda_def Player_mount_def speed_def)
  show ?thesis
    using a b c d v
      curved_step_displacement_length [OF a b c d, of "(0, 0, 1)" "''sphere''"]
    by simp
qed

section \<open>The sphere scenario\<close>

lemma atan2_forward: "atan2 0 1 = 0"
  by (simp add: atan2_def)

lemma chart_du_forward:
  "chart_du (0, 0, 1) 1 0 lam dt = ((0, speed / max lam 0.0001 * dt), 0)"
  by (simp add: chart_du_def Let_def lengthSq2_def normalize2_def length2_def multiplyScalar2_def
      applyMatrix3_def dot3_def vx_def vy_def vz_def atan2_forward)

lemma sphere_step_forward:
  "useFrame (0, 0, 1) [''KeyW'' \<mapsto> True] (1 / 10) ''riemann'' ''sphere''
      \<lparr>obj = Some pos, vel = w, chart = (0, 0), onGround = g\<rparr>
   = (\<lparr>obj = Some (0, 2100 / 22549, - 22451 / 22549), vel = w, chart = (0, 7 / 150), onGround = g\<rparr>,
      Some ((0, 2100 / 22549, - 22451 / 22549), 0))"
  by (simp add: useFrame_curved inputs_W chart_du_forward metric_factor_cases embed_point_cases
      sphereLambda_def stereoToSphere_def speed_def Let_def)

text \<open>
  Claim C4, as amended. Curved mode on the sphere, chart position \<open>(0, 0)\<close>, forward input
  1, strafe 0, camera direction \<open>(0, 0, 1)\<close> (yaw 0), elapsed time \<open>0.1\<close>: the step clamps
  the elapsed time to \<open>1/30\<close>, the metric factor is 2 and the chart displacement is
  \<open>(0, 7/150)\<close>; the new chart position is \<open>(0, 7/150)\<close> and the pose carries
  \<open>stereoToSphere (0, 7/150) = (0, 2100/22549, -22451/22549)\<close>, about
  \<open>(0, 0.0931, -0.9957)\<close>, with yaw 0.
\<close>

theorem sphere_scenario_clamped:
  "metric_factor ''sphere'' (0, 0) = 2
   \<and> fst (chart_du (0, 0, 1) (forward_input [''KeyW'' \<mapsto> True]) (strafe_input [''KeyW'' \<mapsto> True])
             (metric_factor ''sphere'' (0, 0)) (min (1 / 10) (1 / 30))) = (0, 7 / 150)
   \<and> useFrame (0, 0, 1) [''KeyW'' \<mapsto> True] (1 / 10) ''riemann'' ''sphere''
        \<lparr>obj = Some pos, vel = w, chart = (0, 0), onGround = g\<rparr>
     = (\<lparr>obj = Some (stereoToSphere (0, 7 / 150)), vel = w, chart = (0, 7 / 150), onGround = g\<rparr>,
        Some (stereoToSphere (0, 7 / 150), 0))
   \<and> stereoToSphere (0, 7 / 150) = (0, 2100 / 22549, - 22451 / 22549)"
  by (simp add: sphere_step_forward inputs_W chart_du_forward metric_factor_cases
      sphereLambda_def stereoToSphere_def speed_def Let_def)

text \<open>
  Claim C4 as stated fails: with elapsed time \<open>0.1\<close> the new chart position is not
  \<open>(0, 0.14)\<close>.
\<close>

theorem sphere_scenario_counterexample:
  "\<not> (chart (fst (useFrame (0, 0, 1) [''KeyW'' \<mapsto> True] (1 / 10) ''riemann'' ''sphere''
                    \<lparr>obj = Some (0, 0, 0), vel = (0, 0, 0), chart = (0, 0), onGround = True\<rparr>))
        = (0, 0.14))"
  by (simp add: sphere_step_forward)

section \<open>The flat-mode step\<close>

lemma flat_move_no_input: "flat_move dir 0 0 = (0, 0, 0)"
  by (cases dir)
    (simp add: flat_move_def Let_def addScaledVector_def add3_def multiplyScalar3_def
      negate3_def crossVectors_def lengthSq3_def split: prod.splits)

lemma chart_du_no_input: "chart_du cam 0 0 lam dt = ((0, 0), atan2 (vx cam) (vz cam))"
  by (simp add: chart_du_def Let_def lengthSq2_def)

lemma ground_clamp_xz:
  "vx (fst (ground_clamp st)) = vx (fst st) \<and> vz (fst (ground_clamp st)) = vz (fst st)"
  by (cases st) (auto simp: ground_clamp_def vx_def vz_def split: prod.splits)

lemma flat_integrate_xz:
  "vx (fst (flat_integrate (0, 0, 0) jump dt (pos, w, g))) = vx pos
   \<and> vz (fst (flat_integrate (0, 0, 0) jump dt (pos, w, g))) = vz pos"
  by (cases pos; cases w) (simp add: flat_integrate_def Let_def vx_def vz_def)

text \<open>
  Claim C5, as amended. With a zero desired-direction input, a curved-mode step leaves
  the chart position unchanged and reports the embedding of that position with the yaw of
  the camera direction; a flat-mode step leaves the \<open>x\<close> and \<open>z\<close> coordinates of the
  position unchanged and reports the yaw of the camera direction projected on the ground
  (the \<open>y\<close> coordinate follows gravity, jump and the ground plane).
\<close>

theorem zero_input_step:
  assumes "(strafe_input keys, forward_input keys) = (0, 0)" and "obj s = Some pos"
  shows "(mode \<noteq> ''euclid'' \<longrightarrow>
            chart (fst (useFrame cam keys dt mode manifold s)) = chart s
            \<and> snd (useFrame cam keys dt mode manifold s)
                = Some (embed_point manifold (chart s), atan2 (vx cam) (vz cam)))
       \<and> (mode = ''euclid'' \<longrightarrow>
            (\<exists>q. obj (fst (useFrame cam keys dt mode manifold s)) = Some q
                 \<and> vx q = vx pos \<and> vz q = vz pos
                 \<and> snd (useFrame cam keys dt mode manifold s)
                     = Some (q, atan2 (vx (flat_dir cam)) (vz (flat_dir cam)))))"
proof (intro conjI impI)
  assume m: "mode \<noteq> ''euclid''"
  show "chart (fst (useFrame cam keys dt mode manifold s)) = chart s"
    using assms by (simp add: useFrame_curved [OF m assms(2)] chart_du_no_input)
  show "snd (useFrame cam keys dt mode manifold s)
          = Some (embed_point manifold (chart s), atan2 (vx cam) (vz cam))"
    using assms by (simp add: useFrame_curved [OF m assms(2)] chart_du_no_input)
next
  assume m: "mode = ''euclid''"
  show "\<exists>q. obj (fst (useFrame cam keys dt mode manifold s)) = Some q
          \<and> vx q = vx pos \<and> vz q = vz pos
          \<and> snd (useFrame cam keys dt mode manifold s)
              = Some (q, atan2 (vx (flat_dir cam)) (vz (flat_dir cam)))"
    using assms
    by (simp add: m useFrame_flat [OF assms(2)] flat_move_no_input ground_clamp_xz
        flat_integrate_xz)
qed

theorem zero_input_step_witness:
  "(strafe_input Map.empty, forward_input Map.empty) = (0, 0)
   \<and> obj Player_mount = Some (0, 1.2, 4)
   \<and> chart (fst (useFrame (0, 0, 1) Map.empty (1 / 60) ''riemann'' ''sphere'' Player_mount))
       = chart Player_mount
   \<and> (\<exists>q. obj (fst (useFrame (0, 0, 1) Map.empty (1 / 60) ''euclid'' ''sphere'' Player_mount)) = Some q
          \<and> vx q = 0 \<and> vz q = 4)"
proof -
  have a: "(strafe_input Map.empty, forward_input Map.empty) = (0, 0)"
    by (simp add: inputs_none)
  have b: "obj Player_mount = Some (0, 1.2, 4)"
    by (simp add: Player_mount_def)
  have c: "''riemann'' \<noteq> ''euclid''"
    by simp
  show ?thesis
    using a b
      zero_input_step [OF a b, of "''riemann''" "(0, 0, 1)" "1 / 60" "''sphere''"]
      zero_input_step [OF a b, of "''euclid''" "(0, 0, 1)" "1 / 60" "''sphere''"]
    by (auto simp: vx_def vz_def)
qed

lemma flat_fall_from_mount:
  "useFrame (0, 0, - 1) Map.empty (1 / 30) ''euclid'' ''sphere'' Player_mount
   = (\<lparr>obj = Some (0, 1.2 - 9.8 / 900, 4), vel = (0, - 9.8 / 30, 0), chart = (0, 0), onGround = True\<rparr>,
      Some ((0, 1.2 - 9.8 / 900, 4), atan2 0 (- 1)))"
  by (simp add: useFrame_flat [of _ "(0, 1.2, 4)"] Player_mount_def inputs_none flat_move_no_input
      flat_integrate_def ground_clamp_def gravity_def Let_def held_def flat_dir_def normalize3_def
      length3_def lengthSq3_def multiplyScalar3_def vx_def vz_def)

text \<open>
  Claim C5 as stated fails in flat mode: with no key held, one frame from the mount
  position \<open>(0, 1.2, 4)\<close> moves the position (it falls).
\<close>

theorem zero_input_flat_counterexample:
  "(strafe_input Map.empty, forward_input Map.empty) = (0, 0)
   \<and> obj Player_mount = Some (0, 1.2, 4)
   \<and> obj (fst (useFrame (0, 0, - 1) Map.empty (1 / 30) ''euclid'' ''sphere'' Player_mount))
       \<noteq> Some (0, 1.2, 4)"
  by (simp add: flat_fall_from_mount inputs_none) (simp add: Player_mount_def)

section \<open>The ground plane\<close>

lemma ground_clamp_floor: "1 \<le> vy (fst (ground_clamp st))"
  by (cases st) (auto simp: ground_clamp_def vy_def split: prod.splits)

lemma ground_clamp_contact:
  "vy (fst st) < 1 \<Longrightarrow>
     vy (fst (ground_clamp st)) = 1 \<and> vy (fst (snd (ground_clamp st))) = 0
     \<and> snd (snd (ground_clamp st))"
  by (cases st) (auto simp: ground_clamp_def vy_def split: prod.splits)

text \<open>
  Claim C9. After a flat-mode step of a mounted player the \<open>y\<close> coordinate is at least 1;
  when the integrated position (lines 169 to 180) has \<open>y < 1\<close>, the step ends with
  \<open>y = 1\<close>, vertical velocity 0 and the grounded flag set.
\<close>

theorem flat_ground_invariant:
  assumes "obj s = Some pos"
  shows "\<exists>q. obj (fst (useFrame cam keys dt ''euclid'' manifold s)) = Some q \<and> 1 \<le> vy q
          \<and> (vy (fst (flat_integrate
                      (flat_move (flat_dir cam) (forward_input keys) (strafe_input keys))
                      (held keys ''Space'') (min dt (1 / 30)) (pos, vel s, onGround s))) < 1
               \<longrightarrow> vy q = 1
                   \<and> vy (vel (fst (useFrame cam keys dt ''euclid'' manifold s))) = 0
                   \<and> onGround (fst (useFrame cam keys dt ''euclid'' manifold s)))"
  by (simp add: useFrame_flat [OF assms] ground_clamp_floor ground_clamp_contact)

theorem flat_ground_invariant_witness:
  "obj \<lparr>obj = Some (0, 1, 0), vel = (0, 0, 0), chart = (0, 0), onGround = False\<rparr> = Some (0, 1, 0)
   \<and> vy (fst (flat_integrate
                 (flat_move (flat_dir (0, 0, 1)) (forward_input Map.empty) (strafe_input Map.empty))
                 (held Map.empty ''Space'') (min (1 / 60) (1 / 30)) ((0, 1, 0), (0, 0, 0), False))) < 1
   \<and> (\<exists>q. obj (fst (useFrame (0, 0, 1) Map.empty (1 / 60) ''euclid'' ''sphere''
                      \<lparr>obj = Some (0, 1, 0), vel = (0, 0, 0), chart = (0, 0), onGround = False\<rparr>))
              = Some q \<and> vy q = 1)
   \<and> vy (vel (fst (useFrame (0, 0, 1) Map.empty (1 / 60) ''euclid'' ''sphere''
                      \<lparr>obj = Some (0, 1, 0), vel = (0, 0, 0), chart = (0, 0), onGround = False\<rparr>))) = 0
   \<and> onGround (fst (useFrame (0, 0, 1) Map.empty (1 / 60) ''euclid'' ''sphere''
                      \<lparr>obj = Some (0, 1, 0), vel = (0, 0, 0), chart = (0, 0), onGround = False\<rparr>))"
proof -
  let ?s = "\<lparr>obj = Some (0, 1, 0), vel = (0, 0, 0), chart = (0, 0), onGround = False\<rparr>"
  have a: "obj ?s = Some (0, 1, 0)"
    by simp
  have b: "vy (fst (flat_integrate
                 (flat_move (flat_dir (0, 0, 1)) (forward_input Map.empty) (strafe_input Map.empty))
                 (held Map.empty ''Space'') (min (1 / 60) (1 / 30)) ((0, 1, 0), vel ?s, onGround ?s))) < 1"
    by (simp add: inputs_none flat_move_no_input flat_integrate_def held_def gravity_def vy_def Let_def)
  show ?thesis
    using a b flat_ground_invariant [OF a, of "(0, 0, 1)" Map.empty "1 / 60" "''sphere''"]
    by auto
qed

section \<open>Cells private to a mode\<close>

lemma curved_frame_keeps_flat_cells:
  "mode \<noteq> ''euclid'' \<Longrightarrow>
     vel (fst (useFrame cam keys dt mode manifold s)) = vel s
     \<and> onGround (fst (useFrame cam keys dt mode manifold s)) = onGround s"
  by (cases "obj s") (simp_all add: useFrame_unmounted useFrame_curved)

lemma flat_frame_keeps_chart:
  "chart (fst (useFrame cam keys dt ''euclid'' manifold s)) = chart s"
  by (cases "obj s") (simp_all add: useFrame_unmounted useFrame_flat)

lemma curved_run_keeps_flat_cells:
  "mode \<noteq> ''euclid'' \<Longrightarrow>
     vel (run_frames fs mode manifold s) = vel s
     \<and> onGround (run_frames fs mode manifold s) = onGround s"
proof (induction fs arbitrary: s)
  case Nil
  show ?case by simp
next
  case (Cons f fs)
  obtain cam keys dt where f: "f = (cam, keys, dt)"
    by (cases f) auto
  show ?case
    using Cons.IH [OF Cons.prems] curved_frame_keeps_flat_cells [OF Cons.prems]
    by (simp add: f)
qed

lemma flat_run_keeps_chart: "chart (run_frames fs ''euclid'' manifold s) = chart s"
proof (induction fs arbitrary: s)
  case Nil
  show ?case by simp
next
  case (Cons f fs)
  obtain cam keys dt where f: "f = (cam, keys, dt)"
    by (cases f) auto
  show ?case
    using Cons.IH flat_frame_keeps_chart by (simp add: f)
qed

text \<open>
  Claim C8. A curved-mode step leaves the velocity and the grounded flag as they were,
  and a flat-mode step leaves the chart position as it was; the same holds after any run
  of frames in that mode.
\<close>

theorem mode_private_state_frame:
  "(mode \<noteq> ''euclid'' \<longrightarrow>
      vel (fst (useFrame cam keys dt mode manifold s)) = vel s
      \<and> onGround (fst (useFrame cam keys dt mode manifold s)) = onGround s
      \<and> vel (run_frames fs mode manifold s) = vel s
      \<and> onGround (run_frames fs mode manifold s) = onGround s)
   \<and> (mode = ''euclid'' \<longrightarrow>
      chart (fst (useFrame cam keys dt mode manifold s)) = chart s
      \<and> chart (run_frames fs mode manifold s) = chart s)"
  using curved_frame_keeps_flat_cells [of mode cam keys dt manifold s]
    curved_run_keeps_flat_cells [of mode fs manifold s]
    flat_frame_keeps_chart [of cam keys dt manifold s]
    flat_run_keeps_chart [of fs manifold s]
  by blast

theorem mode_private_state_frame_witness:
  "''riemann'' \<noteq> ''euclid''
   \<and> vel (fst (useFrame (0, 0, 1) [''KeyW'' \<mapsto> True] (1 / 60) ''riemann'' ''sphere'' Player_mount))
       = vel Player_mount
   \<and> onGround (fst (useFrame (0, 0, 1) [''KeyW'' \<mapsto> True] (1 / 60) ''riemann'' ''sphere'' Player_mount))
       = onGround Player_mount
   \<and> chart (fst (useFrame (0, 0, 1) [''KeyW'' \<mapsto> True] (1 / 60) ''euclid'' ''sphere'' Player_mount))
       = chart Player_mount"
  using mode_private_state_frame [of "''riemann''" "(0, 0, 1)" "[''KeyW'' \<mapsto> True]" "1 / 60"
          "''sphere''" Player_mount "[]"]
    mode_private_state_frame [of "''euclid''" "(0, 0, 1)" "[''KeyW'' \<mapsto> True]" "1 / 60"
          "''sphere''" Player_mount "[]"]
  by simp

section \<open>A manifold tag that is neither sphere nor saddle\<close>

text \<open>
  Claim C10. In curved mode with a manifold tag that is neither \<open>sphere\<close> nor \<open>saddle\<close>,
  a step of a mounted player uses the metric factor 1, reports the point \<open>(0, 0, 0)\<close>
  whatever the chart position, and still adds the chart displacement (computed with
  factor 1) to the chart position.
\<close>

theorem unknown_manifold_step:
  assumes "mode \<noteq> ''euclid''" and "manifold \<noteq> ''sphere''" and "manifold \<noteq> ''saddle''"
    and "obj s = Some pos"
  shows "metric_factor manifold (chart s) = 1
       \<and> useFrame cam keys dt mode manifold s
         = (s\<lparr>chart := (fst (chart s)
                           + fst (fst (chart_du cam (forward_input keys) (strafe_input keys) 1
                                        (min dt (1 / 30)))),
                         snd (chart s)
                           + snd (fst (chart_du cam (forward_input keys) (strafe_input keys) 1
                                        (min dt (1 / 30))))),
               obj := Some (0, 0, 0)\<rparr>,
            Some ((0, 0, 0),
                  snd (chart_du cam (forward_input keys) (strafe_input keys) 1 (min dt (1 / 30)))))"
  using assms(2,3)
  by (simp add: useFrame_curved [OF assms(1,4)] metric_factor_cases embed_point_cases)

theorem unknown_manifold_step_witness:
  "''riemann'' \<noteq> ''euclid'' \<and> ''torus'' \<noteq> ''sphere'' \<and> ''torus'' \<noteq> ''saddle''
   \<and> obj Player_mount = Some (0, 1.2, 4)
   \<and> metric_factor ''torus'' (chart Player_mount) = 1
   \<and> useFrame (0, 0, 1) [''KeyW'' \<mapsto> True] (1 / 60) ''riemann'' ''torus'' Player_mount
       = (\<lparr>obj = Some (0, 0, 0), vel = (0, 0, 0), chart = (0, 7 / 150), onGround = True\<rparr>,
          Some ((0, 0, 0), 0))"
proof -
  have a: "''riemann'' \<noteq> ''euclid''" by simp
  have b: "''torus'' \<noteq> ''sphere''" by simp
  have c: "''torus'' \<noteq> ''saddle''" by simp
  have d: "obj Player_mount = Some (0, 1.2, 4)" by (simp add: Player_mount_def)
  show ?thesis
    using a b c d unknown_manifold_step [OF a b c d, of "(0, 0, 1)" "[''KeyW'' \<mapsto> True]" "1 / 60"]
    by (simp add: inputs_W chart_du_forward speed_def) (simp add: Player_mount_def)
qed

section \<open>Mode and manifold transitions\<close>

text \<open>
  Claim C3, as amended. A change of mode or manifold takes effect at once and stamps the
  transition time (a setter called with the value already held stamps nothing); it leaves
  the cells of the player (object position, velocity, chart position, grounded flag) and
  the pose untouched. The player's cells are initialised once, when the application
  mounts: object at \<open>(0, 1.2, 4)\<close>, velocity 0, chart position at the origin, grounded.
\<close>

theorem transition_keeps_player:
  "player_state (setMode m now a) = player_state a
   \<and> player_state (setManifold k now a) = player_state a
   \<and> pose_state (setMode m now a) = pose_state a
   \<and> pose_state (setManifold k now a) = pose_state a
   \<and> mode_state (setMode m now a) = m
   \<and> manifold_state (setManifold k now a) = k
   \<and> player_state (App_mount now) = Player_mount
   \<and> transitionTS (setMode m now a) = (if m = mode_state a then transitionTS a else now)
   \<and> transitionTS (setManifold k now a)
       = (if k = manifold_state a then transitionTS a else now)
   \<and> manifold_state (setMode m now a) = manifold_state a
   \<and> mode_state (setManifold k now a) = mode_state a
   \<and> player_state (App_mount now)
       = \<lparr>obj = Some (0, 1.2, 4), vel = (0, 0, 0), chart = (0, 0), onGround = True\<rparr>"
  by (simp add: setMode_def setManifold_def App_mount_def Player_mount_def)

lemma app_after_one_curved_frame:
  "App_frame (0, 0, 1) [''KeyW'' \<mapsto> True] (1 / 30) (setMode ''riemann'' 1 (App_mount 0))
   = \<lparr>mode_state = ''riemann'', manifold_state = ''sphere'', transitionTS = 1,
      pose_state = ((0, 2100 / 22549, - 22451 / 22549), 0),
      player_state = \<lparr>obj = Some (0, 2100 / 22549, - 22451 / 22549), vel = (0, 0, 0),
                       chart = (0, 7 / 150), onGround = True\<rparr>\<rparr>"
  by (simp add: App_frame_def setMode_def App_mount_def Player_mount_def
      useFrame_curved [of _ _ "(0, 1.2, 4)"] inputs_W chart_du_forward metric_factor_cases
      embed_point_cases sphereLambda_def stereoToSphere_def speed_def Let_def)

text \<open>
  Claim C3 as stated fails: after one curved frame on the sphere with the forward key held,
  a switch to the saddle keeps the chart position \<open>(0, 7/150)\<close>, which is not the origin.
\<close>

theorem transition_reset_counterexample:
  "manifold_state (App_frame (0, 0, 1) [''KeyW'' \<mapsto> True] (1 / 30)
                     (setMode ''riemann'' 1 (App_mount 0))) = ''sphere''
   \<and> manifold_state (setManifold ''saddle'' 2
        (App_frame (0, 0, 1) [''KeyW'' \<mapsto> True] (1 / 30) (setMode ''riemann'' 1 (App_mount 0))))
      = ''saddle''
   \<and> chart (player_state (setManifold ''saddle'' 2
        (App_frame (0, 0, 1) [''KeyW'' \<mapsto> True] (1 / 30) (setMode ''riemann'' 1 (App_mount 0)))))
      = (0, 7 / 150)
   \<and> chart (player_state (setManifold ''saddle'' 2
        (App_frame (0, 0, 1) [''KeyW'' \<mapsto> True] (1 / 30) (setMode ''riemann'' 1 (App_mount 0)))))
      \<noteq> (0, 0)"
  by (simp add: app_after_one_curved_frame setManifold_def)

section \<open>Geodesic arcs\<close>

lemma lengthSq3_nonneg: "0 \<le> lengthSq3 a"
  by (cases a) (auto simp: lengthSq3_def)

lemma lengthSq3_multiplyScalar3: "lengthSq3 (multiplyScalar3 a k) = k\<^sup>2 * lengthSq3 a"
  by (cases a) (auto simp: lengthSq3_def multiplyScalar3_def power2_eq_square algebra_simps)

lemma lengthSq3_normalize3: "lengthSq3 (normalize3 a) = (if lengthSq3 a = 0 then 0 else 1)"
proof (cases "lengthSq3 a = 0")
  case True
  then show ?thesis
    by (simp add: normalize3_def lengthSq3_multiplyScalar3)
next
  case False
  then have pos: "0 < lengthSq3 a"
    using lengthSq3_nonneg [of a] by simp
  then have "(1 / sqrt (lengthSq3 a))\<^sup>2 * lengthSq3 a = 1"
    by (simp add: power_divide)
  then show ?thesis
    using False pos by (simp add: normalize3_def length3_def lengthSq3_multiplyScalar3)
qed

lemma length3_unit_iff: "length3 a = 1 \<longleftrightarrow> lengthSq3 a = 1"
  by (simp add: length3_def)

lemma lengthSq3_tangent: "lengthSq3 (tangent p0 yaw rnd) = 0 \<or> lengthSq3 (tangent p0 yaw rnd) = 1"
  by (simp add: tangent_def Let_def lengthSq3_normalize3)

lemma combination_nonzero:
  assumes p: "lengthSq3 p0 = 1" and v: "lengthSq3 v = 0 \<or> lengthSq3 v = 1"
    and c: "c \<noteq> 0" and cs: "c\<^sup>2 \<noteq> s\<^sup>2"
  shows "lengthSq3 (add3 (multiplyScalar3 p0 c) (multiplyScalar3 v s)) \<noteq> 0"
proof
  assume z: "lengthSq3 (add3 (multiplyScalar3 p0 c) (multiplyScalar3 v s)) = 0"
  obtain px py pz where p0: "p0 = (px, py, pz)" by (cases p0)
  obtain a b d where vv: "v = (a, b, d)" by (cases v)
  have sq: "(px * c + a * s)\<^sup>2 + (py * c + b * s)\<^sup>2 + (pz * c + d * s)\<^sup>2 = 0"
    using z by (simp add: p0 vv lengthSq3_def add3_def multiplyScalar3_def power2_eq_square)
  have e1: "px * c = - (a * s)" and e2: "py * c = - (b * s)" and e3: "pz * c = - (d * s)"
    using sq by (auto simp: sum_power2_eq_zero_iff add_nonneg_eq_0_iff)
  have "(px * c)\<^sup>2 + (py * c)\<^sup>2 + (pz * c)\<^sup>2 = (a * s)\<^sup>2 + (b * s)\<^sup>2 + (d * s)\<^sup>2"
    by (simp add: e1 e2 e3)
  then have "c\<^sup>2 * lengthSq3 p0 = s\<^sup>2 * lengthSq3 v"
    by (simp add: p0 vv lengthSq3_def power2_eq_square algebra_simps)
  then have "c\<^sup>2 = s\<^sup>2 * lengthSq3 v"
    using p by simp
  then show False
    using v c cs by auto
qed

lemma arc_angle_ratio:
  "(real i / real N - 0.5) * arc = of_int (13 * int i - 1430) * (pi / 2200)"
  by (simp add: N_def arc_def field_simps)

lemma odd_multiple_small:
  fixes j :: int
  assumes "odd j" and "- 1430 \<le> m * j" and "m * j \<le> 1430" and "550 \<le> m"
  shows "j = - 1 \<or> j = 1"
proof -
  have "j < 3"
  proof (rule ccontr)
    assume "\<not> j < 3"
    then have "m * 3 \<le> m * j"
      using assms(4) by (intro mult_left_mono) simp_all
    then show False
      using assms(3,4) by linarith
  qed
  moreover have "- 3 < j"
  proof (rule ccontr)
    assume "\<not> - 3 < j"
    then have "m * j \<le> m * (- 3)"
      using assms(4) by (intro mult_left_mono) simp_all
    then show False
      using assms(2,4) by linarith
  qed
  ultimately have "j = - 2 \<or> j = - 1 \<or> j = 0 \<or> j = 1 \<or> j = 2"
    by arith
  then show ?thesis
    using assms(1) by auto
qed

lemma arc_index_not_multiple:
  fixes j :: int
  assumes "i \<le> N" and "odd j" and "13 * int i - 1430 = m * j" and "m = 1100 \<or> m = 550"
  shows False
proof -
  have i: "0 \<le> int i" "int i \<le> 220"
    using assms(1) by (simp_all add: N_def)
  have "j = - 1 \<or> j = 1"
    using assms(3,4) i by (intro odd_multiple_small [OF assms(2), of m]) auto
  then have "13 * int i = 330 \<or> 13 * int i = 2530 \<or> 13 * int i = 880 \<or> 13 * int i = 1980"
    using assms(3,4) by auto
  then show False
    by presburger
qed

lemma arc_cos_nonzero:
  assumes "i \<le> N"
  shows "cos ((real i / real N - 0.5) * arc) \<noteq> 0"
proof
  assume "cos ((real i / real N - 0.5) * arc) = 0"
  then obtain j :: int where oj: "odd j"
    and j: "of_int (13 * int i - 1430) * (pi / 2200) = of_int j * (pi / 2)"
    unfolding arc_angle_ratio cos_zero_iff_int by blast
  from j have "of_int (13 * int i - 1430) / 2200 * pi = (of_int j / 2) * pi"
    by simp
  then have "of_int (13 * int i - 1430) / 2200 = (of_int j / 2 :: real)"
    by (simp only: mult_cancel_right) simp
  then have "of_int (13 * int i - 1430) = (of_int (1100 * j) :: real)"
    by simp
  then have "13 * int i - 1430 = 1100 * j"
    by (simp only: of_int_eq_iff)
  then show False
    using arc_index_not_multiple [OF assms oj, of 1100] by simp
qed

lemma arc_cos_sin_differ:
  assumes "i \<le> N"
  shows "(cos ((real i / real N - 0.5) * arc))\<^sup>2 \<noteq> (sin ((real i / real N - 0.5) * arc))\<^sup>2"
proof
  let ?s = "(real i / real N - 0.5) * arc"
  assume "(cos ?s)\<^sup>2 = (sin ?s)\<^sup>2"
  then have "cos (2 * ?s) = 0"
    by (simp add: cos_double)
  then obtain j :: int where oj: "odd j"
    and j: "2 * (of_int (13 * int i - 1430) * (pi / 2200)) = of_int j * (pi / 2)"
    unfolding arc_angle_ratio cos_zero_iff_int by blast
  from j have "of_int (13 * int i - 1430) / 1100 * pi = (of_int j / 2) * pi"
    by simp
  then have "of_int (13 * int i - 1430) / 1100 = (of_int j / 2 :: real)"
    by (simp only: mult_cancel_right) simp
  then have "of_int (13 * int i - 1430) = (of_int (550 * j) :: real)"
    by simp
  then have "13 * int i - 1430 = 550 * j"
    by (simp only: of_int_eq_iff)
  then show False
    using arc_index_not_multiple [OF assms oj, of 550] by simp
qed

lemma arc_point_unit:
  assumes "lengthSq3 p0 = 1" and "lengthSq3 v = 0 \<or> lengthSq3 v = 1" and "i \<le> N"
  shows "length3 (arc_point p0 v i) = 1"
  using combination_nonzero [OF assms(1,2) arc_cos_nonzero [OF assms(3)]
      arc_cos_sin_differ [OF assms(3)]]
  by (simp add: arc_point_def Let_def length3_unit_iff lengthSq3_normalize3)

lemma arc_loop_eq: "arc_loop p0 v i pts = pts @ map (arc_point p0 v) [i ..< Suc N]"
proof (induction p0 v i pts rule: arc_loop.induct)
  case (1 p0 v i pts)
  show ?case
  proof (cases "i \<le> N")
    case True
    then have "[i ..< Suc N] = i # [Suc i ..< Suc N]"
      by (simp add: upt_conv_Cons)
    then show ?thesis
      using True "1.IH" [OF True] by (subst arc_loop.simps) simp
  next
    case False
    then show ?thesis
      by (subst arc_loop.simps) simp
  qed
qed

lemma makeGreatCircle_eq:
  "makeGreatCircle p0 yaw rnd = map (arc_point p0 (tangent p0 yaw rnd)) [0 ..< Suc N]"
  by (simp only: makeGreatCircle_def arc_loop_eq append_Nil)

lemma makeGreatCircle_unit:
  assumes "length3 p0 = 1"
  shows "length (makeGreatCircle p0 yaw rnd) = N + 1
       \<and> (\<forall>g \<in> set (makeGreatCircle p0 yaw rnd). length3 g = 1)"
proof -
  have p: "lengthSq3 p0 = 1"
    using assms by (simp add: length3_unit_iff)
  show ?thesis
    unfolding makeGreatCircle_eq
    using arc_point_unit [OF p lengthSq3_tangent] by auto
qed

lemma normalize3_unit: "length3 p = 1 \<Longrightarrow> normalize3 p = p"
  by (cases p) (simp add: normalize3_def multiplyScalar3_def)

text \<open>
  Claim C7. For a base point \<open>p\<close> of norm 1 and any heading \<open>yaw\<close> (and any random
  draws of the fallback), an arc has \<open>N + 1\<close> points and each of them has norm exactly 1,
  so within \<open>1e-6\<close> of 1; this holds for each of the three arcs of the tracer.
\<close>

theorem geodesic_points_unit:
  assumes "length3 p = 1"
  shows "length (makeGreatCircle p yaw r) = N + 1
       \<and> (\<forall>g \<in> set (makeGreatCircle p yaw r). length3 g = 1 \<and> \<bar>length3 g - 1\<bar> \<le> 0.000001)
       \<and> (\<exists>sets. GeodesicTracers True ''sphere'' (p, yaw) rnd = Some sets \<and> length sets = 3
             \<and> (\<forall>pts \<in> set sets. length pts = N + 1
                   \<and> (\<forall>g \<in> set pts. length3 g = 1 \<and> \<bar>length3 g - 1\<bar> \<le> 0.000001)))"
  using makeGreatCircle_unit [OF assms]
  by (auto simp: GeodesicTracers_def offsets_def normalize3_unit [OF assms])

theorem geodesic_points_unit_witness:
  "length3 (0, 1, 0) = 1
   \<and> length (makeGreatCircle (0, 1, 0) 0 ((1, 0, 0), 1 / 2)) = N + 1
   \<and> length3 (makeGreatCircle (0, 1, 0) 0 ((1, 0, 0), 1 / 2) ! 110) = 1
   \<and> (\<exists>sets. GeodesicTracers True ''sphere'' ((0, 1, 0), 0) (\<lambda>k. ((1, 0, 0), 1 / 2)) = Some sets
          \<and> length sets = 3)"
proof -
  have a: "length3 (0, 1, 0) = 1"
    by (simp add: length3_def lengthSq3_def)
  note t = geodesic_points_unit [OF a, of 0 "((1, 0, 0), 1 / 2)" "\<lambda>k. ((1, 0, 0), 1 / 2)"]
  have len: "length (makeGreatCircle (0, 1, 0) 0 ((1, 0, 0), 1 / 2)) = N + 1"
    using t by blast
  then have "makeGreatCircle (0, 1, 0) 0 ((1, 0, 0), 1 / 2) ! 110
               \<in> set (makeGreatCircle (0, 1, 0) 0 ((1, 0, 0), 1 / 2))"
    by (intro nth_mem) (simp add: N_def)
  then have pt: "length3 (makeGreatCircle (0, 1, 0) 0 ((1, 0, 0), 1 / 2) ! 110) = 1"
    using t by blast
  have "\<exists>sets. GeodesicTracers True ''sphere'' ((0, 1, 0), 0) (\<lambda>k. ((1, 0, 0), 1 / 2)) = Some sets
          \<and> length sets = 3"
    using t by blast
  then show ?thesis
    using a len pt by blast
qed

end
